theory Spec2Isabelle
  imports Main "HOL-Library.Word"
begin

section \<open>Strings and the helpers of the JavaScript runtime\<close>

text \<open>
  A JavaScript string is a sequence of UTF-16 code units; \<open>length\<close> is its
  \<^verbatim>\<open>.length\<close>. The function \<open>js\<close> reads an ASCII literal.
\<close>

type_synonym jsstring = "16 word list"

definition js :: "string \<Rightarrow> jsstring" where
  "js s = map of_char s"

definition nl :: "16 word" where
  "nl = 0x0A"

definition space :: "16 word" where
  "space = 0x20"

definition isHighSurrogate :: "16 word \<Rightarrow> bool" where
  "isHighSurrogate c = (0xD800 \<le> c \<and> c \<le> 0xDBFF)"

definition isLowSurrogate :: "16 word \<Rightarrow> bool" where
  "isLowSurrogate c = (0xDC00 \<le> c \<and> c \<le> 0xDFFF)"

text \<open>
  \<^verbatim>\<open>strBytes(text) = new TextEncoder().encode(text).length\<close>: the number of bytes of
  the UTF-8 encoding. A code unit below 0x80 takes one byte, one below 0x800 two, a
  surrogate pair four, every other unit three (an unpaired surrogate is encoded as U+FFFD).
\<close>

fun strBytes :: "jsstring \<Rightarrow> nat" where
  "strBytes [] = 0"
| "strBytes [c] = (if c < 0x80 then 1 else if c < 0x800 then 2 else 3)"
| "strBytes (c # d # cs) =
     (if c < 0x80 then 1 + strBytes (d # cs)
      else if c < 0x800 then 2 + strBytes (d # cs)
      else if isHighSurrogate c \<and> isLowSurrogate d then 4 + strBytes cs
      else 3 + strBytes (d # cs))"

text \<open>\<^verbatim>\<open>str.split(/\n/)\<close>: the pieces between line feeds; never an empty array.\<close>

fun splitNl :: "jsstring \<Rightarrow> jsstring list" where
  "splitNl [] = [[]]"
| "splitNl (c # cs) =
     (if c = nl then [] # splitNl cs
      else (c # hd (splitNl cs)) # tl (splitNl cs))"

text \<open>
  The class \<^verbatim>\<open>\s\<close> of a JavaScript regular expression, and the test
  \<^verbatim>\<open>/^\s*$/.test(v)\<close>.
\<close>

definition isWhitespace :: "16 word \<Rightarrow> bool" where
  "isWhitespace c =
     (c = 0x09 \<or> c = 0x0A \<or> c = 0x0B \<or> c = 0x0C \<or> c = 0x0D \<or> c = 0x20 \<or>
      c = 0xA0 \<or> c = 0x1680 \<or> (0x2000 \<le> c \<and> c \<le> 0x200A) \<or>
      c = 0x2028 \<or> c = 0x2029 \<or> c = 0x202F \<or> c = 0x205F \<or> c = 0x3000 \<or> c = 0xFEFF)"

definition isBlank :: "jsstring \<Rightarrow> bool" where
  "isBlank v = list_all isWhitespace v"

text \<open>\<^verbatim>\<open>raw.replace(/\n$/, "")\<close>: one line feed at the very end is removed.\<close>

definition chopNl :: "jsstring \<Rightarrow> jsstring" where
  "chopNl raw = (if raw \<noteq> [] \<and> last raw = nl then butlast raw else raw)"

text \<open>
  \<^verbatim>\<open>text.replace(/(?<=\n)\s+/g, "")\<close>: every run of whitespace that follows a line
  feed is removed (the run is greedy, so it takes further line feeds with it).
\<close>

function stripIndent :: "jsstring \<Rightarrow> jsstring" where
  "stripIndent [] = []"
| "stripIndent (c # cs) =
     (if c = nl then c # stripIndent (dropWhile isWhitespace cs)
      else c # stripIndent cs)"
  by pat_completeness auto
termination
  by (relation "measure length") (auto simp: less_Suc_eq_le length_dropWhile_le)

text \<open>\<^verbatim>\<open>n.toString()\<close> of a non-negative integer: its decimal digits.\<close>

definition digit :: "nat \<Rightarrow> 16 word" where
  "digit d = of_nat (48 + d)"

function toString :: "nat \<Rightarrow> jsstring" where
  "toString n = (if n < 10 then [digit n] else toString (n div 10) @ [digit (n mod 10)])"
  by pat_completeness auto
termination
  by (relation "measure id") auto

declare toString.simps [simp del]

text \<open>\<^verbatim>\<open>str.padStart(n, " ")\<close> and \<^verbatim>\<open>" ".repeat(n)\<close>.\<close>

definition padStart :: "jsstring \<Rightarrow> nat \<Rightarrow> jsstring" where
  "padStart str n = replicate (n - length str) space @ str"

definition spaces :: "nat \<Rightarrow> jsstring" where
  "spaces n = replicate n space"

text \<open>
  \<^verbatim>\<open>dropLastWhile(array, predicate)\<close> of the standard collections library: the array
  without its longest suffix of elements that satisfy the predicate.
\<close>

definition dropLastWhile :: "'a list \<Rightarrow> ('a \<Rightarrow> bool) \<Rightarrow> 'a list" where
  "dropLastWhile array predicate = rev (dropWhile predicate (rev array))"

section \<open>Positions, ranges and attributes\<close>

record Position =
  line :: int
  character :: int

record Range =
  range_start :: Position
  range_end :: Position

text \<open>
  \<^verbatim>\<open>TextAttrItem\<close>: a tagged union. The kinds \<^verbatim>\<open>fenced\<close> and \<^verbatim>\<open>title\<close> carry a
  range and a payload, \<^verbatim>\<open>horizontalrule\<close> carries a line only, the seven general
  kinds carry a range.
\<close>

datatype GeneralType =
  Bold | Strike | Italic | LinkAttr | Url | CodespanAttr | CodespanDelimiter

datatype TextAttrItem =
    Fenced Range jsstring
  | Title Range nat
  | Horizontalrule int
  | General GeneralType Range

definition shiftPosition :: "Position \<Rightarrow> Position \<Rightarrow> Position" where
  "shiftPosition p delta =
     \<lparr>line = line p + line delta, character = character p + character delta\<rparr>"

definition shiftRange :: "Range \<Rightarrow> Position \<Rightarrow> Range" where
  "shiftRange src delta =
     \<lparr>range_start = shiftPosition (range_start src) delta,
      range_end = shiftPosition (range_end src) delta\<rparr>"

fun transformPosition :: "TextAttrItem \<Rightarrow> Position \<Rightarrow> TextAttrItem" where
  "transformPosition (Horizontalrule l) delta = Horizontalrule (l + line delta)"
| "transformPosition (Fenced src lang) delta = Fenced (shiftRange src delta) lang"
| "transformPosition (Title src depth) delta = Title (shiftRange src delta) depth"
| "transformPosition (General ty src) delta = General ty (shiftRange src delta)"

section \<open>Tokens\<close>

text \<open>
  Modelled from the spec: the token type is declared by the external tokenizer, not by
  this repository ("a tree of typed tokens ..., each carrying its own nested child tokens
  and raw text payloads"). A constructor carries the fields the renderer reads:
  \<^item> \<open>Heading depth tokens\<close>, \<open>Paragraph tokens\<close>, \<open>Strong\<close>, \<open>Del\<close>, \<open>Em\<close>,
    \<open>Blockquote tokens\<close>;
  \<^item> \<open>Text text tokens\<close>: a text token has a text and may have nested inline tokens,
    which the renderer never reads;
  \<^item> \<open>Space raw\<close>, \<open>Table raw\<close>, \<open>Codespan text\<close>, \<open>Code text lang\<close> (the language
    may be absent);
  \<^item> \<open>Link tokens href title\<close> and \<open>Image text href title\<close> (the title may be null);
  \<^item> \<open>List ordered items\<close>, each item a list item given by its \<open>checked\<close> field
    (absent, true or false) and its tokens; \<open>ListItem checked tokens\<close> is the same
    list item as a token of its own;
  \<^item> \<open>Html\<close>, \<open>Def\<close>, \<open>Escape\<close>: the renderer reads their type only.
\<close>

datatype token =
    Heading nat "token list"
  | Paragraph "token list"
  | Text jsstring "token list"
  | Space jsstring
  | Br
  | Strong "token list"
  | Del "token list"
  | Em "token list"
  | Link "token list" jsstring "jsstring option"
  | Image jsstring jsstring "jsstring option"
  | Code jsstring "jsstring option"
  | Codespan jsstring
  | Blockquote "token list"
  | Hr
  | Table jsstring
  | List bool "(bool option \<times> token list) list"
  | ListItem "bool option" "token list"
  | Html
  | Def
  | Escape

section \<open>The renderer\<close>

datatype error = NotImplementedError jsstring | Error jsstring

text \<open>The two fields of a \<^verbatim>\<open>Renderer\<close>, which are also what \<^verbatim>\<open>render\<close> returns.\<close>

record Renderer =
  rtext :: "jsstring list"
  rattrs :: "TextAttrItem list"

definition newRenderer :: Renderer where
  "newRenderer = \<lparr>rtext = [], rattrs = []\<rparr>"

text \<open>
  \<^verbatim>\<open>#getEofPosition\<close>. On an empty buffer \<^verbatim>\<open>this.text[-1]\<close> is undefined, and the
  encoder encodes its default argument, the empty string: zero bytes.
\<close>

definition getEofPosition :: "Renderer \<Rightarrow> bool \<Rightarrow> Position" where
  "getEofPosition s exclusive =
     \<lparr>line = int (length (rtext s)),
      character = int (if rtext s = [] then 0 else strBytes (last (rtext s))) + 1 +
        (if exclusive then 1 else 0)\<rparr>"

text \<open>
  \<^verbatim>\<open>#appendText\<close>; \<open>unescape\<close> is the entity decoder of the standard HTML library,
  a parameter of the model.
\<close>

definition appendText ::
  "(jsstring \<Rightarrow> jsstring) \<Rightarrow> jsstring \<Rightarrow> Renderer \<Rightarrow> Range \<times> Renderer" where
  "appendText unescape txt s =
     (let parts = splitNl (unescape txt); top = hd parts; rest = tl parts in
      if rtext s = [] then
        (let s' = s\<lparr>rtext := top # rest\<rparr> in
         (\<lparr>range_start = \<lparr>line = 1, character = 1\<rparr>,
           range_end = getEofPosition s' False\<rparr>, s'))
      else
        (let start = getEofPosition s False;
             s' = s\<lparr>rtext := butlast (rtext s) @ [last (rtext s) @ top] @ rest\<rparr>
         in (\<lparr>range_start = start, range_end = getEofPosition s' False\<rparr>, s')))"

definition pushText :: "jsstring list \<Rightarrow> Renderer \<Rightarrow> Renderer" where
  "pushText ls s = s\<lparr>rtext := rtext s @ ls\<rparr>"

definition pushAttrs :: "TextAttrItem list \<Rightarrow> Renderer \<Rightarrow> Renderer" where
  "pushAttrs as s = s\<lparr>rattrs := rattrs s @ as\<rparr>"

text \<open>
  \<^verbatim>\<open>labelChar\<close>, the label of an item of an unordered list, as the literal stands
  in the source file: the three characters U+00E2, U+20AC, U+00A2, seven bytes in UTF-8.
  (They are the bytes of the bullet U+2022 read in a one-byte encoding; the test suite
  expects the bullet.)
\<close>

definition labelChar :: jsstring where
  "labelChar = [0xE2, 0x20AC, 0xA2]"

text \<open>The part of the link and image case after the label: href, optional title.\<close>

definition linkTail ::
  "(jsstring \<Rightarrow> jsstring) \<Rightarrow> jsstring \<Rightarrow> jsstring option \<Rightarrow> Renderer \<Rightarrow> Renderer" where
  "linkTail unescape href title s =
     (let s1 = snd (appendText unescape (js '']('') s);
          (rng, s2) = appendText unescape href s1;
          s3 = pushAttrs [General Url rng] s2;
          s4 = (case title of
                  None \<Rightarrow> s3
                | Some t \<Rightarrow>
                    if t = [] then s3
                    else (let s5 = snd (appendText unescape (js '' '') s3);
                              (trange, s6) = appendText unescape t s5
                          in pushAttrs [Title trange 0] s6))
      in snd (appendText unescape (js '')'') s4))"

text \<open>The label and the checkbox of the item with index \<open>idx\<close> of a list.\<close>

definition itemLabel :: "bool \<Rightarrow> nat \<Rightarrow> nat \<Rightarrow> jsstring" where
  "itemLabel ordered labelSize idx =
     (if ordered then padStart (toString (idx + 1)) (labelSize - 1) @ js ''.''
      else labelChar)"

definition itemCheckbox :: "nat \<Rightarrow> bool option \<Rightarrow> jsstring" where
  "itemCheckbox checkboxSize checked =
     (case checked of
        None \<Rightarrow> spaces checkboxSize
      | Some c \<Rightarrow> if c then js '' [x]'' else js '' [ ]'')"

definition listLabelSize :: "bool \<Rightarrow> (bool option \<times> token list) list \<Rightarrow> nat" where
  "listLabelSize ordered items =
     (if ordered then length (toString (length items)) + 1 else strBytes labelChar)"

definition listCheckboxSize :: "(bool option \<times> token list) list \<Rightarrow> nat" where
  "listCheckboxSize items =
     (if length (filter (\<lambda>v. fst v = Some True) items) > 0 then 4 else 0)"

text \<open>
  What one item of a list adds to the parent, given the sub-renderer's result. The
  destructuring \<^verbatim>\<open>[hd, ...tl]\<close> of an empty array leaves \<^verbatim>\<open>hd\<close> undefined, which
  the template literal prints as \<^verbatim>\<open>undefined\<close>.
\<close>

definition mergeItem ::
  "bool \<Rightarrow> nat \<Rightarrow> nat \<Rightarrow> nat \<Rightarrow> bool option \<Rightarrow> Renderer \<Rightarrow> Renderer \<Rightarrow> Renderer" where
  "mergeItem ordered labelSize checkboxSize idx checked sub s =
     (let hd = (case rtext sub of [] \<Rightarrow> js ''undefined'' | h # _ \<Rightarrow> h);
          tl = (case rtext sub of [] \<Rightarrow> [] | _ # t \<Rightarrow> t);
          label = itemLabel ordered labelSize idx;
          checkbox = itemCheckbox checkboxSize checked;
          indentSize = labelSize + checkboxSize + 1;
          s1 = pushText [label @ checkbox @ js '' '' @ hd] s;
          s2 = pushText (map (\<lambda>v. spaces indentSize @ v) tl) s1
      in pushAttrs
           (map (\<lambda>attr. transformPosition attr \<lparr>line = 0, character = int indentSize\<rparr>)
              (rattrs sub)) s2)"

text \<open>What a blockquote and a nested list add to the parent.\<close>

definition mergeQuote :: "Renderer \<Rightarrow> Renderer \<Rightarrow> Renderer" where
  "mergeQuote sub s =
     (let quoted = map (\<lambda>v. js ''> '' @ v) (dropLastWhile (rtext sub) isBlank);
          shifted = map (\<lambda>attr. transformPosition attr
                      \<lparr>line = int (length (rtext s)), character = 2\<rparr>) (rattrs sub)
      in pushAttrs shifted (pushText (quoted @ [[]]) s))"

definition mergeNested :: "Renderer \<Rightarrow> Renderer \<Rightarrow> Renderer" where
  "mergeNested sub s =
     (let delta = \<lparr>line = int (length (rtext s)), character = 0\<rparr>;
          transformed = map (\<lambda>attr. transformPosition attr delta) (rattrs sub)
      in pushAttrs transformed (pushText (rtext sub) s))"

text \<open>
  \<^verbatim>\<open>#renderOne\<close>, \<^verbatim>\<open>#renderList\<close> and \<^verbatim>\<open>render\<close>. \<open>renderEach\<close> is the
  \<^verbatim>\<open>forEach\<close> of \<^verbatim>\<open>#renderList\<close>, \<open>renderItems\<close> the one of the list case and
  \<open>renderChildren\<close> the one of the list item case. A thrown error ends every loop.
\<close>

function (sequential) renderOne :: "(jsstring \<Rightarrow> jsstring) \<Rightarrow> token \<Rightarrow> Renderer \<Rightarrow> error + Renderer"
  and renderEach :: "(jsstring \<Rightarrow> jsstring) \<Rightarrow> token list \<Rightarrow> Renderer \<Rightarrow> error + Renderer"
  and renderList ::
    "(jsstring \<Rightarrow> jsstring) \<Rightarrow> token list \<Rightarrow> Renderer \<Rightarrow> error + (Range \<times> Renderer)"
  and render :: "(jsstring \<Rightarrow> jsstring) \<Rightarrow> token list \<Rightarrow> error + Renderer"
  and renderItems ::
    "(jsstring \<Rightarrow> jsstring) \<Rightarrow> bool \<Rightarrow> nat \<Rightarrow> nat \<Rightarrow> nat \<Rightarrow>
       (bool option \<times> token list) list \<Rightarrow> Renderer \<Rightarrow> error + Renderer"
  and renderChildren ::
    "(jsstring \<Rightarrow> jsstring) \<Rightarrow> token list \<Rightarrow> Renderer \<Rightarrow> error + Renderer"
where
  "renderOne unescape (Heading depth tokens) s =
     (let (r1, s1) = appendText unescape (replicate depth 0x23 @ js '' '') s in
      case renderList unescape tokens s1 of
        Inl e \<Rightarrow> Inl e
      | Inr (r2, s2) \<Rightarrow>
          Inr (pushAttrs
                 [Title \<lparr>range_start = range_start r1, range_end = range_end r2\<rparr> depth]
                 (pushText [[]] s2)))"
| "renderOne unescape (Paragraph tokens) s =
     (case renderList unescape tokens s of
        Inl e \<Rightarrow> Inl e
      | Inr (r, s1) \<Rightarrow> Inr (pushText [[]] s1))"
| "renderOne unescape (Text txt tokens) s = Inr (snd (appendText unescape txt s))"
| "renderOne unescape (Space raw) s = Inr (snd (appendText unescape (chopNl raw) s))"
| "renderOne unescape Br s = Inr (pushText [[]] s)"
| "renderOne unescape (Strong tokens) s =
     (case renderList unescape tokens s of
        Inl e \<Rightarrow> Inl e
      | Inr (rng, s1) \<Rightarrow> Inr (pushAttrs [General Bold rng] s1))"
| "renderOne unescape (Del tokens) s =
     (case renderList unescape tokens s of
        Inl e \<Rightarrow> Inl e
      | Inr (rng, s1) \<Rightarrow> Inr (pushAttrs [General Strike rng] s1))"
| "renderOne unescape (Em tokens) s =
     (case renderList unescape tokens s of
        Inl e \<Rightarrow> Inl e
      | Inr (rng, s1) \<Rightarrow> Inr (pushAttrs [General Italic rng] s1))"
| "renderOne unescape (Link tokens href title) s =
     (let s1 = snd (appendText unescape (js ''['') s) in
      case renderList unescape tokens s1 of
        Inl e \<Rightarrow> Inl e
      | Inr (rng, s2) \<Rightarrow>
          Inr (linkTail unescape href title (pushAttrs [General LinkAttr rng] s2)))"
| "renderOne unescape (Image txt href title) s =
     (let s1 = snd (appendText unescape (js ''!['') s);
          (rng, s2) = appendText unescape txt s1
      in Inr (linkTail unescape href title (pushAttrs [General LinkAttr rng] s2)))"
| "renderOne unescape (Code txt lang) s =
     (let (rng, s1) = appendText unescape txt s in
      Inr (pushText [[]]
             (pushAttrs [Fenced rng (case lang of None \<Rightarrow> [] | Some l \<Rightarrow> l)] s1)))"
| "renderOne unescape (Codespan txt) s =
     (let (r1, s1) = appendText unescape (js ''`'') s;
          s2 = pushAttrs [General CodespanDelimiter r1] s1;
          (r2, s3) = appendText unescape txt s2;
          s4 = pushAttrs [General CodespanAttr r2] s3;
          (r3, s5) = appendText unescape (js ''`'') s4
      in Inr (pushAttrs [General CodespanDelimiter r3] s5))"
| "renderOne unescape (Blockquote tokens) s =
     (case render unescape tokens of
        Inl e \<Rightarrow> Inl e
      | Inr sub \<Rightarrow> Inr (mergeQuote sub s))"
| "renderOne unescape Hr s =
     (let s1 = pushText [[]] s in
      Inr (pushAttrs [Horizontalrule (int (length (rtext s1)) - 1)] s1))"
| "renderOne unescape (Table raw) s = Inr (snd (appendText unescape raw s))"
| "renderOne unescape (List ordered items) s =
     renderItems unescape ordered (listLabelSize ordered items) (listCheckboxSize items)
       0 items s"
| "renderOne unescape (ListItem checked tokens) s = renderChildren unescape tokens s"
| "renderOne unescape Html s = Inl (NotImplementedError (js ''Not implemented yet: html''))"
| "renderOne unescape Def s = Inl (NotImplementedError (js ''Not implemented yet: def''))"
| "renderOne unescape Escape s =
     Inl (NotImplementedError (js ''Not implemented yet: escape''))"
| "renderEach unescape [] s = Inr s"
| "renderEach unescape (tok # tokens) s =
     (case renderOne unescape tok s of
        Inl e \<Rightarrow> Inl e
      | Inr s1 \<Rightarrow> renderEach unescape tokens s1)"
| "renderList unescape tokens s =
     (case renderEach unescape tokens s of
        Inl e \<Rightarrow> Inl e
      | Inr s1 \<Rightarrow>
          Inr (\<lparr>range_start = getEofPosition s False, range_end = getEofPosition s1 False\<rparr>,
               s1))"
| "render unescape tokens =
     (case renderList unescape tokens newRenderer of
        Inl e \<Rightarrow> Inl e
      | Inr (r, s) \<Rightarrow> Inr s)"
| "renderItems unescape ordered labelSize checkboxSize idx [] s = Inr s"
| "renderItems unescape ordered labelSize checkboxSize idx (item # items) s =
     (case render unescape [ListItem (fst item) (snd item)] of
        Inl e \<Rightarrow> Inl e
      | Inr sub \<Rightarrow>
          renderItems unescape ordered labelSize checkboxSize (idx + 1) items
            (mergeItem ordered labelSize checkboxSize idx (fst item) sub s))"
| "renderChildren unescape [] s = Inr s"
| "renderChildren unescape (chTok # tokens) s =
     (case (case chTok of
              List ordered items \<Rightarrow>
                (case render unescape [chTok] of
                   Inl e \<Rightarrow> Inl e
                 | Inr sub \<Rightarrow> Inr (mergeNested sub s))
            | Text txt toks \<Rightarrow> Inr (snd (appendText unescape (stripIndent txt) s))
            | _ \<Rightarrow> renderOne unescape chTok s) of
        Inl e \<Rightarrow> Inl e
      | Inr s1 \<Rightarrow> renderChildren unescape tokens s1)"
  by pat_completeness auto

text \<open>
  Every call is on a smaller token tree, or on the same tree from a function later in the
  order \<open>renderItems\<close>, \<open>renderChildren\<close>, \<open>render\<close>, \<open>renderList\<close>, \<open>renderEach\<close>,
  \<open>renderOne\<close>.
\<close>

termination
  apply (relation "measure (\<lambda>x. case x of
      Inl (Inl (u, tok, s)) \<Rightarrow> 5 * size tok
    | Inl (Inr (Inl (u, toks, s))) \<Rightarrow> 5 * size_list size toks + 1
    | Inl (Inr (Inr (u, toks, s))) \<Rightarrow> 5 * size_list size toks + 2
    | Inr (Inl (u, toks)) \<Rightarrow> 5 * size_list size toks + 3
    | Inr (Inr (Inl (u, ord, ls, cs, idx, items, s))) \<Rightarrow>
        5 * size_list (size_prod (\<lambda>_. 0) (size_list size)) items + 4
    | Inr (Inr (Inr (u, toks, s))) \<Rightarrow> 5 * size_list size toks + 4)")
                      apply simp_all
  subgoal for item items by (cases item) simp
  done

text \<open>
  \<^verbatim>\<open>parseMarkdown\<close>; \<open>lexer\<close> is the external tokenizer. A
  \<^verbatim>\<open>NotImplementedError\<close> is rethrown as an \<^verbatim>\<open>Error\<close> with a longer message.
\<close>

definition internalErrorMsg :: jsstring where
  "internalErrorMsg = js (''Internal error: Please report this to '' @
     ''https://github.com/mityu/lspoints-toolkit/issues'' @
     '' with the following error messages.'')"

definition parseMarkdown ::
  "(jsstring \<Rightarrow> token list) \<Rightarrow> (jsstring \<Rightarrow> jsstring) \<Rightarrow> jsstring \<Rightarrow> error + Renderer" where
  "parseMarkdown lexer unescape markdown =
     (case render unescape (lexer markdown) of
        Inr r \<Rightarrow> Inr \<lparr>rtext = dropLastWhile (rtext r) (\<lambda>v. v = []), rattrs = rattrs r\<rparr>
      | Inl (NotImplementedError message) \<Rightarrow>
          Inl (Error (message @ [nl] @ internalErrorMsg @ [nl] @ markdown))
      | Inl (Error message) \<Rightarrow> Inl (Error message))"

section \<open>Reading an attribute\<close>

text \<open>The fields of an attribute: its type tag, and the payload its kind has.\<close>

definition attrType :: "TextAttrItem \<Rightarrow> string" where
  "attrType attr =
     (case attr of
        Fenced r lang \<Rightarrow> ''fenced''
      | Title r depth \<Rightarrow> ''title''
      | Horizontalrule l \<Rightarrow> ''horizontalrule''
      | General ty r \<Rightarrow>
          (case ty of Bold \<Rightarrow> ''bold'' | Strike \<Rightarrow> ''strike'' | Italic \<Rightarrow> ''italic''
           | LinkAttr \<Rightarrow> ''link'' | Url \<Rightarrow> ''url'' | CodespanAttr \<Rightarrow> ''codespan''
           | CodespanDelimiter \<Rightarrow> ''codespanDelimiter''))"

definition attrRange :: "TextAttrItem \<Rightarrow> Range option" where
  "attrRange attr =
     (case attr of
        Fenced r lang \<Rightarrow> Some r
      | Title r depth \<Rightarrow> Some r
      | Horizontalrule l \<Rightarrow> None
      | General ty r \<Rightarrow> Some r)"

definition attrLang :: "TextAttrItem \<Rightarrow> jsstring option" where
  "attrLang attr = (case attr of Fenced r lang \<Rightarrow> Some lang | _ \<Rightarrow> None)"

definition attrDepth :: "TextAttrItem \<Rightarrow> nat option" where
  "attrDepth attr = (case attr of Title r depth \<Rightarrow> Some depth | _ \<Rightarrow> None)"

definition attrLine :: "TextAttrItem \<Rightarrow> int option" where
  "attrLine attr = (case attr of Horizontalrule l \<Rightarrow> Some l | _ \<Rightarrow> None)"

text \<open>The number of code points of a string: a surrogate pair counts once.\<close>

fun codePoints :: "jsstring \<Rightarrow> nat" where
  "codePoints [] = 0"
| "codePoints [c] = 1"
| "codePoints (c # d # cs) =
     (if isHighSurrogate c \<and> isLowSurrogate d then 1 + codePoints cs
      else 1 + codePoints (d # cs))"

section \<open>Predicates on token trees and on results\<close>

text \<open>
  The kind of the first \<^verbatim>\<open>html\<close>, \<^verbatim>\<open>def\<close> or \<^verbatim>\<open>escape\<close> token the renderer comes
  to, if it comes to one: the search follows the token lists that \<open>renderOne\<close> descends
  into, in their order. The tokens below a text token are not among them.
\<close>

fun firstUnsupported :: "token \<Rightarrow> jsstring option"
  and firstUnsupportedList :: "token list \<Rightarrow> jsstring option"
  and firstUnsupportedItems :: "(bool option \<times> token list) list \<Rightarrow> jsstring option"
where
  "firstUnsupported (Heading depth tokens) = firstUnsupportedList tokens"
| "firstUnsupported (Paragraph tokens) = firstUnsupportedList tokens"
| "firstUnsupported (Text txt tokens) = None"
| "firstUnsupported (Space raw) = None"
| "firstUnsupported Br = None"
| "firstUnsupported (Strong tokens) = firstUnsupportedList tokens"
| "firstUnsupported (Del tokens) = firstUnsupportedList tokens"
| "firstUnsupported (Em tokens) = firstUnsupportedList tokens"
| "firstUnsupported (Link tokens href title) = firstUnsupportedList tokens"
| "firstUnsupported (Image txt href title) = None"
| "firstUnsupported (Code txt lang) = None"
| "firstUnsupported (Codespan txt) = None"
| "firstUnsupported (Blockquote tokens) = firstUnsupportedList tokens"
| "firstUnsupported Hr = None"
| "firstUnsupported (Table raw) = None"
| "firstUnsupported (List ordered items) = firstUnsupportedItems items"
| "firstUnsupported (ListItem checked tokens) = firstUnsupportedList tokens"
| "firstUnsupported Html = Some (js ''html'')"
| "firstUnsupported Def = Some (js ''def'')"
| "firstUnsupported Escape = Some (js ''escape'')"
| "firstUnsupportedList [] = None"
| "firstUnsupportedList (tok # tokens) =
     (case firstUnsupported tok of
        Some ty \<Rightarrow> Some ty
      | None \<Rightarrow> firstUnsupportedList tokens)"
| "firstUnsupportedItems [] = None"
| "firstUnsupportedItems (item # items) =
     (case firstUnsupportedList (snd item) of
        Some ty \<Rightarrow> Some ty
      | None \<Rightarrow> firstUnsupportedItems items)"

text \<open>Whether such a token stands anywhere in the tree, also below a text token.\<close>

fun containsUnsupported :: "token \<Rightarrow> bool"
  and containsUnsupportedList :: "token list \<Rightarrow> bool"
  and containsUnsupportedItems :: "(bool option \<times> token list) list \<Rightarrow> bool"
where
  "containsUnsupported (Heading depth tokens) = containsUnsupportedList tokens"
| "containsUnsupported (Paragraph tokens) = containsUnsupportedList tokens"
| "containsUnsupported (Text txt tokens) = containsUnsupportedList tokens"
| "containsUnsupported (Space raw) = False"
| "containsUnsupported Br = False"
| "containsUnsupported (Strong tokens) = containsUnsupportedList tokens"
| "containsUnsupported (Del tokens) = containsUnsupportedList tokens"
| "containsUnsupported (Em tokens) = containsUnsupportedList tokens"
| "containsUnsupported (Link tokens href title) = containsUnsupportedList tokens"
| "containsUnsupported (Image txt href title) = False"
| "containsUnsupported (Code txt lang) = False"
| "containsUnsupported (Codespan txt) = False"
| "containsUnsupported (Blockquote tokens) = containsUnsupportedList tokens"
| "containsUnsupported Hr = False"
| "containsUnsupported (Table raw) = False"
| "containsUnsupported (List ordered items) = containsUnsupportedItems items"
| "containsUnsupported (ListItem checked tokens) = containsUnsupportedList tokens"
| "containsUnsupported Html = True"
| "containsUnsupported Def = True"
| "containsUnsupported Escape = True"
| "containsUnsupportedList [] = False"
| "containsUnsupportedList (tok # tokens) =
     (containsUnsupported tok \<or> containsUnsupportedList tokens)"
| "containsUnsupportedItems [] = False"
| "containsUnsupportedItems (item # items) =
     (containsUnsupportedList (snd item) \<or> containsUnsupportedItems items)"

text \<open>
  A result agrees with \<open>first\<close> when it is the not-implemented error of the kind
  \<open>first\<close> names, and a value when \<open>first\<close> names none.
\<close>

definition outcome :: "jsstring option \<Rightarrow> error + 'a \<Rightarrow> bool" where
  "outcome first r =
     (case r of
        Inl e \<Rightarrow>
          (case first of
             Some ty \<Rightarrow> e = NotImplementedError (js ''Not implemented yet: '' @ ty)
           | None \<Rightarrow> False)
      | Inr v \<Rightarrow> first = None)"

text \<open>
  The lines of an item of an ordered list in the spec's words. The label of the item with
  index \<open>i\<close> in a list of \<open>N\<close> items is the number \<open>i + 1\<close>, right-justified by spaces to
  the number of digits of \<open>N\<close>, and a dot. The first line of the item follows the label,
  the checkbox and a space; every further line is indented by the width of the three.
\<close>

definition orderedLabel :: "nat \<Rightarrow> nat \<Rightarrow> jsstring" where
  "orderedLabel N i =
     replicate (length (toString N) - length (toString (i + 1))) space @
       toString (i + 1) @ js ''.''"

definition orderedItemLines ::
  "nat \<Rightarrow> nat \<Rightarrow> nat \<Rightarrow> bool option \<Rightarrow> jsstring list \<Rightarrow> jsstring list" where
  "orderedItemLines N checkboxSize i checked sublines =
     (orderedLabel N i @ itemCheckbox checkboxSize checked @ js '' '' @
        (case sublines of [] \<Rightarrow> js ''undefined'' | h # _ \<Rightarrow> h)) #
     map (\<lambda>v. spaces (length (toString N) + 1 + checkboxSize + 1) @ v)
       (case sublines of [] \<Rightarrow> [] | _ # t \<Rightarrow> t)"

text \<open>
  The property of an attribute that it addresses text of the output: a position is on a
  line of the text, at a column from 1 to the byte length of that line plus one (plus
  \<open>extra\<close>); a range starts no later than it ends, with one more column allowed at the
  end; the line of a horizontal rule is a line of the text.
\<close>

definition positionInText :: "jsstring list \<Rightarrow> Position \<Rightarrow> int \<Rightarrow> bool" where
  "positionInText txt p extra =
     (if 1 \<le> line p \<and> line p \<le> int (length txt)
      then 1 \<le> character p \<and>
           character p \<le> int (strBytes (txt ! nat (line p - 1))) + 1 + extra
      else False)"

definition attrInText :: "jsstring list \<Rightarrow> TextAttrItem \<Rightarrow> bool" where
  "attrInText txt attr =
     (case attr of
        Horizontalrule l \<Rightarrow> 1 \<le> l \<and> l \<le> int (length txt)
      | Fenced r lang \<Rightarrow>
          line (range_start r) \<le> line (range_end r) \<and>
          positionInText txt (range_start r) 0 \<and> positionInText txt (range_end r) 1
      | Title r depth \<Rightarrow>
          line (range_start r) \<le> line (range_end r) \<and>
          positionInText txt (range_start r) 0 \<and> positionInText txt (range_end r) 1
      | General ty r \<Rightarrow>
          line (range_start r) \<le> line (range_end r) \<and>
          positionInText txt (range_start r) 0 \<and> positionInText txt (range_end r) 1)"

section \<open>Properties\<close>

subsection \<open>Strings\<close>

lemma splitNl_not_Nil: "splitNl cs \<noteq> []"
  by (induction cs) auto

lemma strBytes_ge_length: "length l \<le> strBytes l"
  by (induction l rule: strBytes.induct) auto

lemma strBytes_gt_length: "\<exists>c\<in>set l. \<not> c < 0x80 \<Longrightarrow> length l < strBytes l"
proof (induction l rule: strBytes.induct)
  case 1
  then show ?case by simp
next
  case (2 c)
  then show ?case by auto
next
  case (3 c d cs)
  have a: "length (d # cs) \<le> strBytes (d # cs)" by (rule strBytes_ge_length)
  have b: "length cs \<le> strBytes cs" by (rule strBytes_ge_length)
  show ?case
  proof (cases "c < 0x80")
    case True
    with 3 show ?thesis by auto
  next
    case False
    with a b show ?thesis by auto
  qed
qed

lemma codePoints_le_length: "codePoints l \<le> length l"
  by (induction l rule: codePoints.induct) auto

subsection \<open>The coordinate shift\<close>

text \<open>
  C9. \<open>transformPosition\<close> changes position fields only. The type tag, the language of a
  fenced attribute and the depth of a title stay as they are; both ends of a range move
  by the delta's line and character; the line of a horizontal rule moves by the delta's
  line, whatever the delta's character is.
\<close>

theorem transformPosition_frame:
  "attrType (transformPosition attr delta) = attrType attr \<and>
   attrLang (transformPosition attr delta) = attrLang attr \<and>
   attrDepth (transformPosition attr delta) = attrDepth attr \<and>
   attrRange (transformPosition attr delta) =
     map_option (\<lambda>r.
       \<lparr>range_start = \<lparr>line = line (range_start r) + line delta,
                       character = character (range_start r) + character delta\<rparr>,
        range_end = \<lparr>line = line (range_end r) + line delta,
                     character = character (range_end r) + character delta\<rparr>\<rparr>)
       (attrRange attr) \<and>
   attrLine (transformPosition attr delta) = map_option (\<lambda>l. l + line delta) (attrLine attr)"
  by (cases attr)
    (simp_all add: attrType_def attrLang_def attrDepth_def attrRange_def attrLine_def
      shiftRange_def shiftPosition_def)

subsection \<open>The end of the buffer\<close>

text \<open>
  C8. On a buffer with at least one line, \<open>getEofPosition\<close> returns the number of lines
  and the UTF-8 byte length of the last line plus one (plus one more when exclusive). When
  the last line has a code unit outside ASCII, that column is greater than the line's
  number of UTF-16 code units plus one, and than its number of code points plus one.
\<close>

theorem getEofPosition_bytes:
  assumes "rtext s \<noteq> []"
  shows "getEofPosition s exclusive =
           \<lparr>line = int (length (rtext s)),
            character = int (strBytes (last (rtext s))) + 1 + (if exclusive then 1 else 0)\<rparr> \<and>
         ((\<exists>c\<in>set (last (rtext s)). 0x80 \<le> c) \<longrightarrow>
           int (length (last (rtext s))) + 1 < character (getEofPosition s exclusive) \<and>
           int (codePoints (last (rtext s))) + 1 < character (getEofPosition s exclusive))"
proof (intro conjI impI)
  show "getEofPosition s exclusive =
           \<lparr>line = int (length (rtext s)),
            character = int (strBytes (last (rtext s))) + 1 + (if exclusive then 1 else 0)\<rparr>"
    using assms by (simp add: getEofPosition_def)
next
  assume "\<exists>c\<in>set (last (rtext s)). 0x80 \<le> c"
  then have "\<exists>c\<in>set (last (rtext s)). \<not> c < 0x80"
    by (auto simp: not_less)
  then have bytes: "length (last (rtext s)) < strBytes (last (rtext s))"
    by (rule strBytes_gt_length)
  have points: "codePoints (last (rtext s)) \<le> length (last (rtext s))"
    by (rule codePoints_le_length)
  show "int (length (last (rtext s))) + 1 < character (getEofPosition s exclusive)"
    using assms bytes by (simp add: getEofPosition_def)
  show "int (codePoints (last (rtext s))) + 1 < character (getEofPosition s exclusive)"
    using assms bytes points by (simp add: getEofPosition_def)
qed

theorem getEofPosition_bytes_witness:
  "getEofPosition \<lparr>rtext = [[0x2022]], rattrs = []\<rparr> False = \<lparr>line = 1, character = 4\<rparr> \<and>
   int (length [0x2022 :: 16 word]) + 1 < 4"
  using getEofPosition_bytes [of "\<lparr>rtext = [[0x2022]], rattrs = []\<rparr>" False] by simp

subsection \<open>The empty input\<close>

text \<open>
  C10. Rendering the empty token sequence succeeds with no text and no attributes, and so
  does \<open>parseMarkdown\<close> on an input whose tokenization is empty. \<open>renderList\<close> asks for
  the end of the empty buffer, which is line 0, column 1, and raises nothing.
\<close>

theorem render_empty:
  assumes "lexer markdown = []"
  shows "render unescape [] = Inr \<lparr>rtext = [], rattrs = []\<rparr> \<and>
         parseMarkdown lexer unescape markdown = Inr \<lparr>rtext = [], rattrs = []\<rparr> \<and>
         getEofPosition newRenderer False = \<lparr>line = 0, character = 1\<rparr>"
  using assms
  by (simp add: parseMarkdown_def newRenderer_def dropLastWhile_def getEofPosition_def)

theorem render_empty_witness:
  "(\<lambda>_. []) ([] :: jsstring) = ([] :: token list) \<and>
   parseMarkdown (\<lambda>_. []) (\<lambda>s. s) [] = Inr \<lparr>rtext = [], rattrs = []\<rparr>"
  using render_empty [of "\<lambda>_. []" "[]" "\<lambda>s. s"] by simp

subsection \<open>Labels of an ordered list\<close>

lemma toString_length_pos: "0 < length (toString n)"
  by (subst toString.simps) simp

lemma toString_length_mono: "m \<le> n \<Longrightarrow> length (toString m) \<le> length (toString n)"
proof (induction n arbitrary: m rule: toString.induct)
  case (1 n)
  show ?case
  proof (cases "n < 10")
    case True
    with 1 have "m < 10" by simp
    with True show ?thesis by (simp add: toString.simps)
  next
    case False
    show ?thesis
    proof (cases "m < 10")
      case True
      then have "length (toString m) = 1" by (simp add: toString.simps)
      moreover have "0 < length (toString (n div 10))" by (rule toString_length_pos)
      ultimately show ?thesis using False by (subst (2) toString.simps) simp
    next
      case m: False
      from 1(2) have "m div 10 \<le> n div 10" by (rule div_le_mono)
      with 1(1) False have "length (toString (m div 10)) \<le> length (toString (n div 10))"
        by simp
      then show ?thesis using m False
        by (subst toString.simps, subst (2) toString.simps) simp
    qed
  qed
qed

text \<open>The length of \<open>toString n\<close> is the number of decimal digits of \<open>n\<close>.\<close>

lemma toString_digits:
  "0 < n \<Longrightarrow> 10 ^ (length (toString n) - 1) \<le> n \<and> n < 10 ^ length (toString n)"
proof (induction n rule: toString.induct)
  case (1 n)
  show ?case
  proof (cases "n < 10")
    case True
    with 1(2) show ?thesis by (simp add: toString.simps)
  next
    case False
    then have pos: "0 < n div 10" by simp
    with 1(1) False have ih: "10 ^ (length (toString (n div 10)) - 1) \<le> n div 10"
      "n div 10 < 10 ^ length (toString (n div 10))" by simp_all
    have len: "length (toString n) = length (toString (n div 10)) + 1"
      using False by (subst toString.simps) simp
    have lp: "0 < length (toString (n div 10))" by (rule toString_length_pos)
    from ih(1) have "10 * 10 ^ (length (toString (n div 10)) - 1) \<le> n" by simp
    then have a: "10 ^ (length (toString n) - 1) \<le> n"
      using len lp by (cases "length (toString (n div 10))") simp_all
    from ih(2) have "n < 10 * 10 ^ length (toString (n div 10))" by simp
    then have b: "n < 10 ^ length (toString n)" using len by simp
    from a b show ?thesis ..
  qed
qed

text \<open>The lines one item adds, and the lines the loop over the items adds.\<close>

lemma mergeItem_text:
  "rtext (mergeItem ordered labelSize checkboxSize idx checked sub s) =
     rtext s @
       (itemLabel ordered labelSize idx @ itemCheckbox checkboxSize checked @ js '' '' @
          (case rtext sub of [] \<Rightarrow> js ''undefined'' | h # _ \<Rightarrow> h)) #
       map (\<lambda>v. spaces (labelSize + checkboxSize + 1) @ v)
         (case rtext sub of [] \<Rightarrow> [] | _ # t \<Rightarrow> t)"
  by (simp add: mergeItem_def Let_def pushText_def pushAttrs_def)

lemma renderItems_text:
  "renderItems unescape ordered labelSize checkboxSize idx items s = Inr s' \<Longrightarrow>
   \<exists>subs.
     list_all2 (\<lambda>item sub. render unescape [ListItem (fst item) (snd item)] = Inr sub)
       items subs \<and>
     rtext s' = rtext s @
       concat (map (\<lambda>(i, item, sub).
           (itemLabel ordered labelSize i @ itemCheckbox checkboxSize (fst item) @ js '' '' @
              (case rtext sub of [] \<Rightarrow> js ''undefined'' | h # _ \<Rightarrow> h)) #
           map (\<lambda>v. spaces (labelSize + checkboxSize + 1) @ v)
             (case rtext sub of [] \<Rightarrow> [] | _ # t \<Rightarrow> t))
         (zip [idx..<idx + length items] (zip items subs)))"
proof (induction items arbitrary: idx s)
  case Nil
  then show ?case by simp
next
  case (Cons item items)
  from Cons.prems obtain sub where
    sub: "render unescape [ListItem (fst item) (snd item)] = Inr sub"
    and rest: "renderItems unescape ordered labelSize checkboxSize (idx + 1) items
        (mergeItem ordered labelSize checkboxSize idx (fst item) sub s) = Inr s'"
    by (cases "render unescape [ListItem (fst item) (snd item)]")
      (simp_all del: render.simps)
  from Cons.IH [OF rest] obtain subs where
    ok: "list_all2 (\<lambda>item sub. render unescape [ListItem (fst item) (snd item)] = Inr sub)
       items subs"
    and lines: "rtext s' =
       rtext (mergeItem ordered labelSize checkboxSize idx (fst item) sub s) @
       concat (map (\<lambda>(i, item, sub).
           (itemLabel ordered labelSize i @ itemCheckbox checkboxSize (fst item) @ js '' '' @
              (case rtext sub of [] \<Rightarrow> js ''undefined'' | h # _ \<Rightarrow> h)) #
           map (\<lambda>v. spaces (labelSize + checkboxSize + 1) @ v)
             (case rtext sub of [] \<Rightarrow> [] | _ # t \<Rightarrow> t))
         (zip [idx + 1..<idx + 1 + length items] (zip items subs)))"
    by blast
  have upt: "[idx..<idx + length (item # items)] = idx # [idx + 1..<idx + 1 + length items]"
    by (simp add: upt_conv_Cons del: upt_Suc)
  have a: "list_all2 (\<lambda>item sub. render unescape [ListItem (fst item) (snd item)] = Inr sub)
       (item # items) (sub # subs)"
    using sub ok by (simp del: render.simps)
  have b: "rtext s' = rtext s @
       concat (map (\<lambda>(i, item, sub).
           (itemLabel ordered labelSize i @ itemCheckbox checkboxSize (fst item) @ js '' '' @
              (case rtext sub of [] \<Rightarrow> js ''undefined'' | h # _ \<Rightarrow> h)) #
           map (\<lambda>v. spaces (labelSize + checkboxSize + 1) @ v)
             (case rtext sub of [] \<Rightarrow> [] | _ # t \<Rightarrow> t))
         (zip [idx..<idx + length (item # items)] (zip (item # items) (sub # subs))))"
    unfolding upt lines mergeItem_text by simp
  from a b show ?case by blast
qed

lemma orderedLabel_width:
  "i < N \<Longrightarrow> length (orderedLabel N i) = length (toString N) + 1"
proof -
  assume "i < N"
  then have "i + 1 \<le> N" by simp
  then have "length (toString (i + 1)) \<le> length (toString N)"
    by (rule toString_length_mono)
  then show ?thesis by (simp add: orderedLabel_def js_def)
qed

text \<open>
  C7. When an ordered list of \<open>N\<close> items renders, every item has rendered in a renderer
  of its own, and the text the list case adds to the buffer is, item after item from index
  0, the lines of \<open>orderedItemLines\<close>: the first line of the item with index \<open>i\<close> begins
  with the number \<open>i + 1\<close>, right-justified by spaces to the digits of \<open>N\<close>, and a dot.
  Every label of the list is as wide as the digits of \<open>N\<close> plus one.
\<close>

theorem ordered_list_labels:
  assumes "renderOne unescape (List True items) s = Inr s'"
  shows "\<exists>subs.
     list_all2 (\<lambda>item sub. render unescape [ListItem (fst item) (snd item)] = Inr sub)
       items subs \<and>
     rtext s' = rtext s @
       concat (map (\<lambda>(i, item, sub).
           orderedItemLines (length items) (listCheckboxSize items) i (fst item) (rtext sub))
         (zip [0..<length items] (zip items subs))) \<and>
     (\<forall>i<length items.
        length (orderedLabel (length items) i) = length (toString (length items)) + 1)"
proof -
  from assms have "renderItems unescape True (listLabelSize True items)
      (listCheckboxSize items) 0 items s = Inr s'"
    by simp
  from renderItems_text [OF this] obtain subs where
    ok: "list_all2 (\<lambda>item sub. render unescape [ListItem (fst item) (snd item)] = Inr sub)
       items subs"
    and lines: "rtext s' = rtext s @
       concat (map (\<lambda>(i, item, sub).
           (itemLabel True (listLabelSize True items) i @
              itemCheckbox (listCheckboxSize items) (fst item) @ js '' '' @
              (case rtext sub of [] \<Rightarrow> js ''undefined'' | h # _ \<Rightarrow> h)) #
           map (\<lambda>v. spaces (listLabelSize True items + listCheckboxSize items + 1) @ v)
             (case rtext sub of [] \<Rightarrow> [] | _ # t \<Rightarrow> t))
         (zip [0..<0 + length items] (zip items subs)))"
    by blast
  have lab: "\<And>i. itemLabel True (listLabelSize True items) i = orderedLabel (length items) i"
    by (simp add: itemLabel_def listLabelSize_def padStart_def orderedLabel_def)
  have b: "rtext s' = rtext s @
       concat (map (\<lambda>(i, item, sub).
           orderedItemLines (length items) (listCheckboxSize items) i (fst item) (rtext sub))
         (zip [0..<length items] (zip items subs)))"
    unfolding lines lab orderedItemLines_def by (simp add: listLabelSize_def)
  have c: "\<forall>i<length items.
        length (orderedLabel (length items) i) = length (toString (length items)) + 1"
    by (simp add: orderedLabel_width)
  from ok b c show ?thesis by blast
qed

theorem ordered_list_labels_witness:
  "renderOne (\<lambda>s. s)
     (List True
        [(None, [Text (js ''a'') []]), (None, [Text (js ''b'') []]),
         (None, [Text (js ''c'') []]), (None, [Text (js ''d'') []]),
         (None, [Text (js ''e'') []]), (None, [Text (js ''f'') []]),
         (None, [Text (js ''g'') []]), (None, [Text (js ''h'') []]),
         (None, [Text (js ''i'') []]), (None, [Text (js ''j'') []])])
     newRenderer =
   Inr \<lparr>rtext = [js '' 1. a'', js '' 2. b'', js '' 3. c'', js '' 4. d'', js '' 5. e'',
                  js '' 6. f'', js '' 7. g'', js '' 8. h'', js '' 9. i'', js ''10. j''],
        rattrs = []\<rparr>"
proof -
  have r: "renderOne (\<lambda>s. s)
     (List True
        [(None, [Text (js ''a'') []]), (None, [Text (js ''b'') []]),
         (None, [Text (js ''c'') []]), (None, [Text (js ''d'') []]),
         (None, [Text (js ''e'') []]), (None, [Text (js ''f'') []]),
         (None, [Text (js ''g'') []]), (None, [Text (js ''h'') []]),
         (None, [Text (js ''i'') []]), (None, [Text (js ''j'') []])])
     newRenderer =
   Inr \<lparr>rtext = [js '' 1. a'', js '' 2. b'', js '' 3. c'', js '' 4. d'', js '' 5. e'',
                  js '' 6. f'', js '' 7. g'', js '' 8. h'', js '' 9. i'', js ''10. j''],
        rattrs = []\<rparr>"
    by code_simp
  from ordered_list_labels [OF r] show ?thesis by - (rule r)
qed

subsection \<open>Trailing lines of the output\<close>

lemma dropLastWhile_split:
  "\<exists>suffix. xs = dropLastWhile xs P @ suffix \<and> list_all P suffix"
proof -
  have "rev (dropWhile P (rev xs)) @ rev (takeWhile P (rev xs)) = rev (rev xs)"
    unfolding rev_append [symmetric] by simp
  then have "xs = dropLastWhile xs P @ rev (takeWhile P (rev xs))"
    by (simp add: dropLastWhile_def)
  moreover have "list_all P (rev (takeWhile P (rev xs)))"
    by (auto simp: list_all_iff dest: set_takeWhileD)
  ultimately show ?thesis by blast
qed

lemma dropLastWhile_last:
  "dropLastWhile xs P \<noteq> [] \<Longrightarrow> \<not> P (last (dropLastWhile xs P))"
  by (simp add: dropLastWhile_def last_rev hd_dropWhile)

lemma all_empty_replicate: "list_all (\<lambda>v. v = []) xs \<Longrightarrow> xs = replicate (length xs) []"
  by (induction xs) auto

text \<open>
  What \<open>parseMarkdown\<close> does remove: the rendered text is the returned text followed by
  empty lines only, the returned text does not end with an empty line, and the attributes
  are returned as rendered.
\<close>

lemma parseMarkdown_trims_empty_lines:
  assumes "render unescape (lexer markdown) = Inr r"
  shows "\<exists>t k. parseMarkdown lexer unescape markdown = Inr \<lparr>rtext = t, rattrs = rattrs r\<rparr> \<and>
           rtext r = t @ replicate k [] \<and> (t \<noteq> [] \<longrightarrow> last t \<noteq> [])"
proof -
  let ?t = "dropLastWhile (rtext r) (\<lambda>v. v = [])"
  obtain suffix where s: "rtext r = ?t @ suffix" "list_all (\<lambda>v. v = []) suffix"
    using dropLastWhile_split [of "rtext r" "\<lambda>v. v = []"] by blast
  from s(2) have "suffix = replicate (length suffix) []" by (rule all_empty_replicate)
  with s(1) have a: "rtext r = ?t @ replicate (length suffix) []" by simp
  have b: "?t \<noteq> [] \<longrightarrow> last ?t \<noteq> []"
    using dropLastWhile_last [of "rtext r" "\<lambda>v. v = []"] by simp
  have c: "parseMarkdown lexer unescape markdown = Inr \<lparr>rtext = ?t, rattrs = rattrs r\<rparr>"
    using assms by (simp add: parseMarkdown_def)
  from a b c show ?thesis by blast
qed

lemma parseMarkdown_trims_empty_lines_example:
  "render (\<lambda>s. s) ((\<lambda>_. [Paragraph [Text (js ''foo'') []]]) (js ''foo'')) =
     Inr \<lparr>rtext = [js ''foo'', []], rattrs = []\<rparr> \<and>
   parseMarkdown (\<lambda>_. [Paragraph [Text (js ''foo'') []]]) (\<lambda>s. s) (js ''foo'') =
     Inr \<lparr>rtext = [js ''foo''], rattrs = []\<rparr>"
proof -
  have r: "render (\<lambda>s. s) ((\<lambda>_. [Paragraph [Text (js ''foo'') []]]) (js ''foo'')) =
     Inr \<lparr>rtext = [js ''foo'', []], rattrs = []\<rparr>"
    by code_simp
  from r parseMarkdown_trims_empty_lines [of "\<lambda>s. s" "\<lambda>_. [Paragraph [Text (js ''foo'') []]]"
    "js ''foo''" "\<lparr>rtext = [js ''foo'', []], rattrs = []\<rparr>"]
  obtain t k where
    p: "parseMarkdown (\<lambda>_. [Paragraph [Text (js ''foo'') []]]) (\<lambda>s. s) (js ''foo'') =
          Inr \<lparr>rtext = t, rattrs = []\<rparr>"
    and t: "[js ''foo'', []] = t @ replicate k []" and l: "t \<noteq> [] \<longrightarrow> last t \<noteq> []"
    by auto
  have "t = [js ''foo'']"
  proof (cases k)
    case 0
    with t l show ?thesis by auto
  next
    case (Suc j)
    with t have "[js ''foo'', []] = (t @ replicate j []) @ [[]]"
      by (simp add: replicate_append_same)
    then have tj: "[js ''foo''] = t @ replicate j []" by simp
    show ?thesis
    proof (cases j)
      case 0
      with tj show ?thesis by simp
    next
      case (Suc i)
      with tj have "[js ''foo''] = (t @ replicate i []) @ [[]]"
        by (simp add: replicate_append_same)
      then have "js ''foo'' = []" by simp
      then show ?thesis by (simp add: js_def)
    qed
  qed
  with p r show ?thesis by simp
qed

text \<open>
  C2. An ordered list whose item holds a fenced code block. The code case pushes an empty
  line after the code, the list case indents it by three columns, and \<open>parseMarkdown\<close>,
  which drops only lines equal to the empty string, returns the three spaces as the last
  line: a line of whitespace only. The blockquote case trims with the whitespace test, and
  the same list in a blockquote comes out without that line.
\<close>

theorem trailing_blank_line_kept:
  "parseMarkdown (\<lambda>_. [List True [(None, [Code (js ''x'') (Some [])])]]) (\<lambda>s. s)
     (js ''1. ```'' @ [nl] @ js ''   x'' @ [nl] @ js ''   ```'') =
     Inr \<lparr>rtext = [js ''1. x'', js ''   ''],
          rattrs = [Fenced \<lparr>range_start = \<lparr>line = 1, character = 4\<rparr>,
                            range_end = \<lparr>line = 1, character = 5\<rparr>\<rparr> []]\<rparr> \<and>
   isBlank (js ''   '') \<and>
   parseMarkdown (\<lambda>_. [Blockquote [List True [(None, [Code (js ''x'') (Some [])])]]])
     (\<lambda>s. s) (js ''> 1. ```'' @ [nl] @ js ''>    x'' @ [nl] @ js ''>    ```'') =
     Inr \<lparr>rtext = [js ''> 1. x''],
          rattrs = [Fenced \<lparr>range_start = \<lparr>line = 1, character = 6\<rparr>,
                            range_end = \<lparr>line = 1, character = 7\<rparr>\<rparr> []]\<rparr>"
  by code_simp

subsection \<open>Headings\<close>

lemma appendText_start:
  "range_start (fst (appendText unescape txt s)) =
     (if rtext s = [] then \<lparr>line = 1, character = 1\<rparr> else getEofPosition s False)"
  by (simp add: appendText_def Let_def)

text \<open>
  C3, as amended. A heading of depth \<open>d\<close> that renders adds one title attribute, last,
  of depth \<open>d\<close>. Its range starts where the marker starts, not after the marker: at
  line 1, column 1 on an empty buffer, and at the end of the buffer before the marker
  otherwise. It ends at the end of the buffer after the children, so it covers the marker
  and the heading text.
\<close>

theorem heading_title_range:
  assumes "renderOne unescape (Heading depth tokens) s = Inr s'"
  shows "\<exists>s2 start.
           renderEach unescape tokens
             (snd (appendText unescape (replicate depth 0x23 @ js '' '') s)) = Inr s2 \<and>
           s' = \<lparr>rtext = rtext s2 @ [[]],
                 rattrs = rattrs s2 @
                   [Title \<lparr>range_start = start, range_end = getEofPosition s2 False\<rparr> depth]\<rparr> \<and>
           start = (if rtext s = [] then \<lparr>line = 1, character = 1\<rparr>
                    else getEofPosition s False) \<and>
           character start =
             (if rtext s = [] then 1 else int (strBytes (last (rtext s))) + 1)"
proof -
  let ?marker = "replicate depth 0x23 @ js '' ''"
  let ?start = "if rtext s = [] then \<lparr>line = 1, character = 1\<rparr> else getEofPosition s False"
  obtain r1 s1 where ap: "appendText unescape ?marker s = (r1, s1)"
    by (cases "appendText unescape ?marker s")
  from assms ap have
    "(case renderList unescape tokens s1 of
        Inl e \<Rightarrow> Inl e
      | Inr (r2, s2) \<Rightarrow>
          Inr (pushAttrs
                 [Title \<lparr>range_start = range_start r1, range_end = range_end r2\<rparr> depth]
                 (pushText [[]] s2))) = Inr s'"
    by (simp del: renderList.simps)
  then obtain r2 s2 where rl: "renderList unescape tokens s1 = Inr (r2, s2)"
    and s': "s' = pushAttrs
                 [Title \<lparr>range_start = range_start r1, range_end = range_end r2\<rparr> depth]
                 (pushText [[]] s2)"
    by (auto simp del: renderList.simps split: sum.splits)
  from rl have re: "renderEach unescape tokens s1 = Inr s2"
    and r2: "range_end r2 = getEofPosition s2 False"
    by (auto split: sum.splits)
  from ap have s1: "s1 = snd (appendText unescape ?marker s)" by simp
  from ap appendText_start [of unescape ?marker s] have r1: "range_start r1 = ?start"
    by simp
  have a: "renderEach unescape tokens (snd (appendText unescape ?marker s)) = Inr s2"
    using re s1 by simp
  have b: "s' = \<lparr>rtext = rtext s2 @ [[]],
                 rattrs = rattrs s2 @
                   [Title \<lparr>range_start = ?start, range_end = getEofPosition s2 False\<rparr> depth]\<rparr>"
    using s' r1 r2 by (simp add: pushAttrs_def pushText_def)
  have c: "character ?start =
             (if rtext s = [] then 1 else int (strBytes (last (rtext s))) + 1)"
    by (simp add: getEofPosition_def)
  from a b c show ?thesis by blast
qed

theorem heading_title_range_witness:
  "renderOne (\<lambda>s. s) (Heading 2 [Text (js ''h2'') []]) \<lparr>rtext = [js ''foo'', []], rattrs = []\<rparr> =
     Inr \<lparr>rtext = [js ''foo'', js ''## h2'', []],
          rattrs = [Title \<lparr>range_start = \<lparr>line = 2, character = 1\<rparr>,
                           range_end = \<lparr>line = 2, character = 6\<rparr>\<rparr> 2]\<rparr>"
proof -
  have r: "renderOne (\<lambda>s. s) (Heading 2 [Text (js ''h2'') []])
      \<lparr>rtext = [js ''foo'', []], rattrs = []\<rparr> =
     Inr \<lparr>rtext = [js ''foo'', js ''## h2'', []],
          rattrs = [Title \<lparr>range_start = \<lparr>line = 2, character = 1\<rparr>,
                           range_end = \<lparr>line = 2, character = 6\<rparr>\<rparr> 2]\<rparr>"
    by code_simp
  from heading_title_range [OF r] show ?thesis by - (rule r)
qed

text \<open>
  The first heading of the test suite: the title starts at column 1, and the marker
  \<^verbatim>\<open>"# "\<close> has length 2.
\<close>

theorem heading_start_counterexample:
  "render (\<lambda>s. s) [Heading 1 [Text (js ''h1 title1'') []]] =
     Inr \<lparr>rtext = [js ''# h1 title1'', []],
          rattrs = [Title \<lparr>range_start = \<lparr>line = 1, character = 1\<rparr>,
                           range_end = \<lparr>line = 1, character = 12\<rparr>\<rparr> 1]\<rparr> \<and>
   (1 :: int) \<noteq> 1 + int (length (replicate 1 (0x23 :: 16 word) @ js '' ''))"
  by code_simp

subsection \<open>Blockquotes\<close>

text \<open>
  C6. Rendering a blockquote is rendering its children in a fresh renderer, dropping the
  blank lines at the end of that text, putting \<^verbatim>\<open>"> "\<close> before every line left,
  and appending these lines and one empty line to the parent, with every attribute of the
  children shifted by the parent's line count and by 2 columns; an error of the children is
  the error of the blockquote. At top level the line shift is 0: an italic span of the
  children moves by 2 columns and stays on its line, and every quoted line starts with
  \<^verbatim>\<open>"> "\<close>.
\<close>

theorem blockquote_render:
  "renderOne unescape (Blockquote tokens) s =
     (case render unescape tokens of
        Inl e \<Rightarrow> Inl e
      | Inr sub \<Rightarrow>
          Inr \<lparr>rtext = rtext s @
                  map (\<lambda>v. js ''> '' @ v) (dropLastWhile (rtext sub) isBlank) @ [[]],
               rattrs = rattrs s @
                  map (\<lambda>attr. transformPosition attr
                         \<lparr>line = int (length (rtext s)), character = 2\<rparr>) (rattrs sub)\<rparr>) \<and>
   (\<forall>sub. render unescape tokens = Inr sub \<longrightarrow>
      (\<exists>quoted.
         render unescape [Blockquote tokens] =
           Inr \<lparr>rtext = quoted @ [[]],
                rattrs = map (\<lambda>attr. transformPosition attr \<lparr>line = 0, character = 2\<rparr>)
                           (rattrs sub)\<rparr> \<and>
         quoted = map (\<lambda>v. js ''> '' @ v) (dropLastWhile (rtext sub) isBlank) \<and>
         (\<forall>l\<in>set quoted. take 2 l = js ''> '') \<and>
         (\<exists>blanks. rtext sub = dropLastWhile (rtext sub) isBlank @ blanks \<and>
            list_all isBlank blanks) \<and>
         (\<forall>r. General Italic r \<in> set (rattrs sub) \<longrightarrow>
            General Italic
              \<lparr>range_start = \<lparr>line = line (range_start r),
                              character = character (range_start r) + 2\<rparr>,
               range_end = \<lparr>line = line (range_end r),
                            character = character (range_end r) + 2\<rparr>\<rparr>
            \<in> set (map (\<lambda>attr. transformPosition attr \<lparr>line = 0, character = 2\<rparr>)
                     (rattrs sub)))))"
proof (intro conjI allI impI)
  show "renderOne unescape (Blockquote tokens) s =
     (case render unescape tokens of
        Inl e \<Rightarrow> Inl e
      | Inr sub \<Rightarrow>
          Inr \<lparr>rtext = rtext s @
                  map (\<lambda>v. js ''> '' @ v) (dropLastWhile (rtext sub) isBlank) @ [[]],
               rattrs = rattrs s @
                  map (\<lambda>attr. transformPosition attr
                         \<lparr>line = int (length (rtext s)), character = 2\<rparr>) (rattrs sub)\<rparr>)"
    by (simp add: mergeQuote_def pushAttrs_def pushText_def split: sum.splits)
next
  fix sub
  assume sub: "render unescape tokens = Inr sub"
  let ?quoted = "map (\<lambda>v. js ''> '' @ v) (dropLastWhile (rtext sub) isBlank)"
  let ?shift = "\<lambda>attr. transformPosition attr \<lparr>line = 0, character = 2\<rparr>"
  have top: "render unescape [Blockquote tokens] =
           Inr \<lparr>rtext = ?quoted @ [[]], rattrs = map ?shift (rattrs sub)\<rparr>"
    using sub by (simp add: mergeQuote_def pushAttrs_def pushText_def newRenderer_def)
  have pre: "\<forall>l\<in>set ?quoted. take 2 l = js ''> ''"
    by (auto simp: js_def)
  have blanks: "\<exists>blanks. rtext sub = dropLastWhile (rtext sub) isBlank @ blanks \<and>
            list_all isBlank blanks"
    by (rule dropLastWhile_split)
  have em: "\<forall>r. General Italic r \<in> set (rattrs sub) \<longrightarrow>
            General Italic
              \<lparr>range_start = \<lparr>line = line (range_start r),
                              character = character (range_start r) + 2\<rparr>,
               range_end = \<lparr>line = line (range_end r),
                            character = character (range_end r) + 2\<rparr>\<rparr>
            \<in> set (map ?shift (rattrs sub))"
  proof (intro allI impI)
    fix r
    assume "General Italic r \<in> set (rattrs sub)"
    then have "?shift (General Italic r) \<in> ?shift ` set (rattrs sub)"
      by (rule imageI)
    then have "?shift (General Italic r) \<in> set (map ?shift (rattrs sub))"
      by (simp only: set_map)
    then show "General Italic
              \<lparr>range_start = \<lparr>line = line (range_start r),
                              character = character (range_start r) + 2\<rparr>,
               range_end = \<lparr>line = line (range_end r),
                            character = character (range_end r) + 2\<rparr>\<rparr>
            \<in> set (map ?shift (rattrs sub))"
      by (simp add: shiftRange_def shiftPosition_def)
  qed
  show "\<exists>quoted.
         render unescape [Blockquote tokens] =
           Inr \<lparr>rtext = quoted @ [[]],
                rattrs = map (\<lambda>attr. transformPosition attr \<lparr>line = 0, character = 2\<rparr>)
                           (rattrs sub)\<rparr> \<and>
         quoted = map (\<lambda>v. js ''> '' @ v) (dropLastWhile (rtext sub) isBlank) \<and>
         (\<forall>l\<in>set quoted. take 2 l = js ''> '') \<and>
         (\<exists>blanks. rtext sub = dropLastWhile (rtext sub) isBlank @ blanks \<and>
            list_all isBlank blanks) \<and>
         (\<forall>r. General Italic r \<in> set (rattrs sub) \<longrightarrow>
            General Italic
              \<lparr>range_start = \<lparr>line = line (range_start r),
                              character = character (range_start r) + 2\<rparr>,
               range_end = \<lparr>line = line (range_end r),
                            character = character (range_end r) + 2\<rparr>\<rparr>
            \<in> set (map (\<lambda>attr. transformPosition attr \<lparr>line = 0, character = 2\<rparr>)
                     (rattrs sub)))"
    apply (rule exI [where x = ?quoted])
    apply (intro conjI)
        apply (rule top)
       apply (rule refl)
      apply (rule pre)
     apply (rule blanks)
    apply (rule em)
    done
qed

theorem blockquote_render_witness:
  "render (\<lambda>s. s) [Paragraph [Text (js ''an '') [], Em [Text (js ''quoted'') []]]] =
     Inr \<lparr>rtext = [js ''an quoted'', []],
          rattrs = [General Italic \<lparr>range_start = \<lparr>line = 1, character = 4\<rparr>,
                                    range_end = \<lparr>line = 1, character = 10\<rparr>\<rparr>]\<rparr> \<and>
   render (\<lambda>s. s) [Blockquote [Paragraph [Text (js ''an '') [], Em [Text (js ''quoted'') []]]]] =
     Inr \<lparr>rtext = [js ''> an quoted'', []],
          rattrs = [General Italic \<lparr>range_start = \<lparr>line = 1, character = 6\<rparr>,
                                    range_end = \<lparr>line = 1, character = 12\<rparr>\<rparr>]\<rparr>"
proof -
  let ?ts = "[Paragraph [Text (js ''an '') [], Em [Text (js ''quoted'') []]]]"
  have sub: "render (\<lambda>s. s) ?ts =
     Inr \<lparr>rtext = [js ''an quoted'', []],
          rattrs = [General Italic \<lparr>range_start = \<lparr>line = 1, character = 4\<rparr>,
                                    range_end = \<lparr>line = 1, character = 10\<rparr>\<rparr>]\<rparr>"
    by code_simp
  have quoted: "render (\<lambda>s. s) [Blockquote ?ts] =
     Inr \<lparr>rtext = [js ''> an quoted'', []],
          rattrs = [General Italic \<lparr>range_start = \<lparr>line = 1, character = 6\<rparr>,
                                    range_end = \<lparr>line = 1, character = 12\<rparr>\<rparr>]\<rparr>"
    by code_simp
  from blockquote_render [of "\<lambda>s. s" ?ts newRenderer] show ?thesis
    by - (rule conjI [OF sub quoted])
qed

subsection \<open>Unsupported tokens\<close>

lemma outcome_Inr [simp]: "outcome first (Inr x) = (first = None)"
  by (simp add: outcome_def)

lemma outcome_Inl [simp]:
  "outcome first (Inl e) =
     (\<exists>ty. first = Some ty \<and> e = NotImplementedError (js ''Not implemented yet: '' @ ty))"
  by (cases first) (simp_all add: outcome_def)

lemma notImplemented_messages:
  "js ''Not implemented yet: html'' = js ''Not implemented yet: '' @ js ''html''"
  "js ''Not implemented yet: def'' = js ''Not implemented yet: '' @ js ''def''"
  "js ''Not implemented yet: escape'' = js ''Not implemented yet: '' @ js ''escape''"
  by (simp_all add: js_def)

text \<open>
  Every function of the renderer fails exactly when it comes to an unsupported token, and
  then with the error of the first one it comes to.
\<close>

lemma render_outcome:
  "outcome (firstUnsupported tok) (renderOne u tok s)"
  "outcome (firstUnsupportedList toks) (renderEach u toks s)"
  "outcome (firstUnsupportedList toks2) (renderList u toks2 s2)"
  "outcome (firstUnsupportedList toks3) (render u toks3)"
  "outcome (firstUnsupportedItems items) (renderItems u ord ls cs idx items s4)"
  "outcome (firstUnsupportedList toks5) (renderChildren u toks5 s5)"
proof (induction u tok s and u toks s and u toks2 s2 and u toks3 and u ord ls cs idx items s4
    and u toks5 s5
    rule: renderOne_renderEach_renderList_render_renderItems_renderChildren.induct)
  case (1 unescape depth tokens s)
  obtain r1 s1 where ap: "appendText unescape (replicate depth 0x23 @ js '' '') s = (r1, s1)"
    by (cases "appendText unescape (replicate depth 0x23 @ js '' '') s")
  from 1 [OF refl ap [symmetric]]
  have ih: "outcome (firstUnsupportedList tokens) (renderList unescape tokens s1)" .
  then show ?case using ap
    by (cases "renderList unescape tokens s1")
      (auto simp del: renderList.simps split: prod.splits)
next
  case (2 unescape tokens s)
  then show ?case
    by (cases "renderList unescape tokens s")
      (auto simp del: renderList.simps split: prod.splits)
next
  case (6 unescape tokens s)
  then show ?case
    by (cases "renderList unescape tokens s")
      (auto simp del: renderList.simps split: prod.splits)
next
  case (7 unescape tokens s)
  then show ?case
    by (cases "renderList unescape tokens s")
      (auto simp del: renderList.simps split: prod.splits)
next
  case (8 unescape tokens s)
  then show ?case
    by (cases "renderList unescape tokens s")
      (auto simp del: renderList.simps split: prod.splits)
next
  case (9 unescape tokens href title s)
  from 9 [OF refl]
  have ih: "outcome (firstUnsupportedList tokens)
      (renderList unescape tokens (snd (appendText unescape (js ''['') s)))" .
  then show ?case
    by (cases "renderList unescape tokens (snd (appendText unescape (js ''['') s))")
      (auto simp del: renderList.simps simp: Let_def split: prod.splits)
next
  case (13 unescape tokens s)
  then show ?case
    by (cases "render unescape tokens") (auto simp del: render.simps)
next
  case (16 unescape ordered items s)
  then show ?case by simp
next
  case (17 unescape checked tokens s)
  then show ?case by simp
next
  case (22 unescape tok tokens s)
  then show ?case
    by (cases "renderOne unescape tok s") (auto split: option.splits)
next
  case (23 unescape tokens s)
  then show ?case
    by (cases "renderEach unescape tokens s") auto
next
  case (24 unescape tokens)
  then show ?case
    by (cases "renderList unescape tokens newRenderer")
      (auto simp del: renderList.simps split: prod.splits)
next
  case (26 unescape ordered labelSize checkboxSize idx item items s)
  then show ?case
    by (cases "render unescape [ListItem (fst item) (snd item)]")
      (auto simp del: render.simps split: option.splits)
next
  case (28 unescape chTok tokens s)
  then show ?case
    by (cases chTok)
      (auto simp del: render.simps simp: notImplemented_messages
        split: sum.splits option.splits)
qed (simp_all add: notImplemented_messages Let_def split: prod.splits)

lemma first_contains:
  "firstUnsupported tok = Some ty \<Longrightarrow> containsUnsupported tok"
  "firstUnsupportedList tokens = Some ty \<Longrightarrow> containsUnsupportedList tokens"
  "firstUnsupportedItems items = Some ty \<Longrightarrow> containsUnsupportedItems items"
  by (induction tok and tokens and items
      rule: firstUnsupported_firstUnsupportedList_firstUnsupportedItems.induct)
    (auto split: option.splits)

text \<open>
  C5, as amended. When the renderer comes to an \<^verbatim>\<open>html\<close>, \<^verbatim>\<open>def\<close> or
  \<^verbatim>\<open>escape\<close> token of the tokenized input, the render fails as a whole, with no text
  and no attributes, and \<open>parseMarkdown\<close> raises an error whose message is the
  not-implemented message of the kind of the first such token, the fixed diagnostic and
  the whole input, each on a line of its own. Every other token tree renders, and
  \<open>parseMarkdown\<close> returns its text without the empty lines at the end.
\<close>

theorem unsupported_token_fails:
  "(case firstUnsupportedList (lexer markdown) of
      Some ty \<Rightarrow>
        render unescape (lexer markdown) =
          Inl (NotImplementedError (js ''Not implemented yet: '' @ ty)) \<and>
        parseMarkdown lexer unescape markdown =
          Inl (Error (js ''Not implemented yet: '' @ ty @ [nl] @ internalErrorMsg @ [nl] @
            markdown))
    | None \<Rightarrow>
        (\<exists>r. render unescape (lexer markdown) = Inr r \<and>
           parseMarkdown lexer unescape markdown =
             Inr \<lparr>rtext = dropLastWhile (rtext r) (\<lambda>v. v = []), rattrs = rattrs r\<rparr>))"
proof (cases "firstUnsupportedList (lexer markdown)")
  case None
  with render_outcome(4) [of "lexer markdown" unescape]
  obtain r where r: "render unescape (lexer markdown) = Inr r"
    by (cases "render unescape (lexer markdown)") (simp_all del: render.simps)
  then have "parseMarkdown lexer unescape markdown =
             Inr \<lparr>rtext = dropLastWhile (rtext r) (\<lambda>v. v = []), rattrs = rattrs r\<rparr>"
    by (simp add: parseMarkdown_def del: render.simps)
  with r None show ?thesis by simp
next
  case (Some ty)
  with render_outcome(4) [of "lexer markdown" unescape]
  have e: "render unescape (lexer markdown) =
      Inl (NotImplementedError (js ''Not implemented yet: '' @ ty))"
    by (cases "render unescape (lexer markdown)") (simp_all del: render.simps)
  then have "parseMarkdown lexer unescape markdown =
          Inl (Error (js ''Not implemented yet: '' @ ty @ [nl] @ internalErrorMsg @ [nl] @
            markdown))"
    by (simp add: parseMarkdown_def del: render.simps)
  with e Some show ?thesis by simp
qed

theorem unsupported_token_fails_witness:
  "parseMarkdown (\<lambda>_. [Paragraph [Text (js ''a'') [], Html]]) (\<lambda>s. s) (js ''a<b>'') =
     Inl (Error (js ''Not implemented yet: html'' @ [nl] @ internalErrorMsg @ [nl] @
       js ''a<b>'')) \<and>
   parseMarkdown (\<lambda>_. [Def]) (\<lambda>s. s) (js ''[a]: b'') =
     Inl (Error (js ''Not implemented yet: def'' @ [nl] @ internalErrorMsg @ [nl] @
       js ''[a]: b'')) \<and>
   parseMarkdown (\<lambda>_. [Paragraph [Escape, Html]]) (\<lambda>s. s) ([0x5C, 0x2A] @ js ''<b>'') =
     Inl (Error (js ''Not implemented yet: escape'' @ [nl] @ internalErrorMsg @ [nl] @
       [0x5C, 0x2A] @ js ''<b>'')) \<and>
   parseMarkdown (\<lambda>_. [Paragraph [Text (js ''a'') []]]) (\<lambda>s. s) (js ''a'') =
     Inr \<lparr>rtext = [js ''a''], rattrs = []\<rparr>"
proof -
  have h: "parseMarkdown (\<lambda>_. [Paragraph [Text (js ''a'') [], Html]]) (\<lambda>s. s) (js ''a<b>'') =
     Inl (Error (js ''Not implemented yet: html'' @ [nl] @ internalErrorMsg @ [nl] @
       js ''a<b>''))"
    using unsupported_token_fails [where lexer = "\<lambda>_. [Paragraph [Text (js ''a'') [], Html]]"
        and markdown = "js ''a<b>''" and unescape = "\<lambda>s. s"]
    by (simp add: js_def)
  have d: "parseMarkdown (\<lambda>_. [Def]) (\<lambda>s. s) (js ''[a]: b'') =
     Inl (Error (js ''Not implemented yet: def'' @ [nl] @ internalErrorMsg @ [nl] @
       js ''[a]: b''))"
    using unsupported_token_fails [where lexer = "\<lambda>_. [Def]" and markdown = "js ''[a]: b''"
        and unescape = "\<lambda>s. s"]
    by (simp add: js_def)
  have e: "parseMarkdown (\<lambda>_. [Paragraph [Escape, Html]]) (\<lambda>s. s) ([0x5C, 0x2A] @ js ''<b>'') =
     Inl (Error (js ''Not implemented yet: escape'' @ [nl] @ internalErrorMsg @ [nl] @
       [0x5C, 0x2A] @ js ''<b>''))"
    using unsupported_token_fails [where lexer = "\<lambda>_. [Paragraph [Escape, Html]]"
        and markdown = "[0x5C, 0x2A] @ js ''<b>''" and unescape = "\<lambda>s. s"]
    by (simp add: js_def)
  have r: "parseMarkdown (\<lambda>_. [Paragraph [Text (js ''a'') []]]) (\<lambda>s. s) (js ''a'') =
     Inr \<lparr>rtext = [js ''a''], rattrs = []\<rparr>"
    by code_simp
  from h d e r show ?thesis by simp
qed

text \<open>
  An ordered list whose item is a text token with an escape token below it: the list item
  case appends the text and never reads the nested tokens, so the input renders.
\<close>

theorem unsupported_inside_text_counterexample:
  "containsUnsupportedList [List True [(None, [Text [0x5C, 0x2A] [Escape]])]] \<and>
   parseMarkdown (\<lambda>_. [List True [(None, [Text [0x5C, 0x2A] [Escape]])]]) (\<lambda>s. s)
       (js ''1. '' @ [0x5C, 0x2A]) =
     Inr \<lparr>rtext = [js ''1. '' @ [0x5C, 0x2A]], rattrs = []\<rparr>"
  by code_simp

subsection \<open>Lists\<close>

text \<open>
  C1. An ordered list of two items, the second holding a fenced code block. The list case
  merges the attributes of every item with a line delta of 0, so the fenced attribute of
  the second item stays on line 1, where the output has the four bytes of the first item;
  its end column 14 is not a column of that line. The code block itself is on line 2.
\<close>

theorem list_item_attribute_outside_text:
  "parseMarkdown
     (\<lambda>_. [List True [(None, [Text (js ''a'') []]), (None, [Code (js ''xxxxxxxxxx'') (Some [])])]])
     (\<lambda>s. s)
     (js ''1. a'' @ [nl] @ js ''2. ```'' @ [nl] @ js ''   xxxxxxxxxx'' @ [nl] @ js ''   ```'') =
     Inr \<lparr>rtext = [js ''1. a'', js ''2. xxxxxxxxxx'', js ''   ''],
          rattrs = [Fenced \<lparr>range_start = \<lparr>line = 1, character = 4\<rparr>,
                            range_end = \<lparr>line = 1, character = 14\<rparr>\<rparr> []]\<rparr> \<and>
   strBytes (js ''1. a'') = 4 \<and>
   \<not> attrInText [js ''1. a'', js ''2. xxxxxxxxxx'', js ''   '']
       (Fenced \<lparr>range_start = \<lparr>line = 1, character = 4\<rparr>,
                range_end = \<lparr>line = 1, character = 14\<rparr>\<rparr> [])"
  by code_simp

text \<open>
  C4. An ordered list of an unchecked task item and a plain item. No item is checked, so
  the shared checkbox width is 0; the unchecked item still gets the four bytes
  \<^verbatim>\<open>" [ ]"\<close> and the plain item gets no padding, so the two texts do not line up.
\<close>

theorem unchecked_items_checkbox_width:
  "listCheckboxSize [(Some False, [Text (js ''a'') []]), (None, [Text (js ''b'') []])] = 0 \<and>
   length (itemCheckbox 0 (Some False)) = 4 \<and>
   length (itemCheckbox 0 None) = 0 \<and>
   render (\<lambda>s. s)
     [List True [(Some False, [Text (js ''a'') []]), (None, [Text (js ''b'') []])]] =
     Inr \<lparr>rtext = [js ''1. [ ] a'', js ''2. b''], rattrs = []\<rparr>"
  by code_simp

subsection \<open>Tests of the repository\<close>

text \<open>
  Three steps of the repository's test of \<open>parseMarkdown\<close>, on the token trees of their
  inputs (the tokenizer gives a space token for a run of blank lines): the model returns the
  text and the attributes the tests expect, with \<open>labelChar\<close> where the third test has
  the bullet.
\<close>

lemma test_plain_text:
  "parseMarkdown
     (\<lambda>_. [Paragraph [Text (js ''foo'') []], Space [nl, nl],
           Paragraph [Text (js ''bar'' @ [nl] @ js ''baz'') []]])
     (\<lambda>s. s) (js ''foo'' @ [nl, nl] @ js ''bar'' @ [nl] @ js ''baz'') =
   Inr \<lparr>rtext = [js ''foo'', [], js ''bar'', js ''baz''], rattrs = []\<rparr>"
  by code_simp

lemma test_blockquote:
  "parseMarkdown
     (\<lambda>_. [Paragraph [Text (js ''plaintext-pre'') []], Space [nl, nl],
           Blockquote
             [Paragraph [Text (js ''This is'') []],
              Blockquote
                [Paragraph [Text (js ''an '') [], Em [Text (js ''quoted'') []],
                   Text ([nl] @ js ''statement.'') []]]],
           Space [nl, nl], Paragraph [Text (js ''plaintext-post'') []]])
     (\<lambda>s. s) [] =
   Inr \<lparr>rtext = [js ''plaintext-pre'', [], [], js ''> This is'', js ''> '',
                  js ''> > an quoted'', js ''> > statement.'', [], js ''plaintext-post''],
        rattrs = [General Italic \<lparr>range_start = \<lparr>line = 6, character = 8\<rparr>,
                                  range_end = \<lparr>line = 6, character = 14\<rparr>\<rparr>]\<rparr>"
  by code_simp

lemma test_indexed_two_depth_list:
  "parseMarkdown
     (\<lambda>_. [List True
            [(None, [Text (js ''item 1'') [],
                     List True [(None, [Text (js ''chitem 1'') []]),
                                (None, [Text (js ''chitem 2'') []])]]),
             (None, [Text (js ''item 2'') []]),
             (None, [Text (js ''item 3'') [],
                     List False [(None, [Text (js ''chitem 1'') []])]]),
             (None, [Text (js ''item 4'') []]),
             (None, [Text (js ''item 5'') []]),
             (None, [Text (js ''item 6'') []]),
             (None, [Text (js ''item 7'') []]),
             (None, [Text (js ''item 8'') []]),
             (None, [Text (js ''item 9'') []]),
             (None, [Text (js ''item 10'') []])]])
     (\<lambda>s. s) [] =
   Inr \<lparr>rtext = [js '' 1. item 1'', js ''    1. chitem 1'', js ''    2. chitem 2'',
                  js '' 2. item 2'', js '' 3. item 3'',
                  js ''    '' @ labelChar @ js '' chitem 1'',
                  js '' 4. item 4'', js '' 5. item 5'', js '' 6. item 6'', js '' 7. item 7'',
                  js '' 8. item 8'', js '' 9. item 9'', js ''10. item 10''],
        rattrs = []\<rparr>"
  by code_simp

end
